theory Spec2Isabelle
  imports Main "HOL-Library.Sublist" "HOL-Library.AList"
begin

text \<open>
  A model of the two scripts of the repository: \<open>tools/registry-lint.mjs\<close>, which
  normalizes the records of a registry document, drops duplicate names, plans file moves
  and, under \<open>--fix --apply-moves\<close>, writes the document and applies the moves; and
  \<open>tools/rescue-move-by-basename.mjs\<close>, which moves files found elsewhere in the tree
  by their basename to the paths the registry wants. Each function of the scripts is a
  function here, under its name; the file system and the console are explicit state.
\<close>

section \<open>Strings and paths\<close>

text \<open>
  JavaScript strings are sequences of UTF-16 code units. The model uses \<open>string\<close>
  (8-bit characters), read as the code units below 256 (Latin-1). Everything
  \<open>toKebab\<close> keeps is ASCII, so this range is where the functions below do their work.
\<close>

definition isSpace :: "char \<Rightarrow> bool" where
  \<comment> \<open>the characters matched by \<open>\s\<close> and removed by \<open>String.prototype.trim\<close>, below 256:
      TAB, LF, VT, FF, CR, SPACE, NBSP\<close>
  "isSpace c = (of_char c \<in> {9, 10, 11, 12, 13, 32, 160 :: nat})"

definition trim :: "string \<Rightarrow> string" where
  "trim s = rev (dropWhile isSpace (rev (dropWhile isSpace s)))"

definition isUpper :: "char \<Rightarrow> bool" where
  \<comment> \<open>the upper-case letters below 256: A-Z, and U+00C0..U+00DE without the sign U+00D7\<close>
  "isUpper c = (c \<in> set ''ABCDEFGHIJKLMNOPQRSTUVWXYZ'' \<or>
     (192 \<le> (of_char c :: nat) \<and> (of_char c :: nat) \<le> 222 \<and> (of_char c :: nat) \<noteq> 215))"

definition toLowerChar :: "char \<Rightarrow> char" where
  \<comment> \<open>in both ranges the lower-case letter is the upper-case one plus 32: bit 5 set\<close>
  "toLowerChar c = (if isUpper c
     then (case c of Char b0 b1 b2 b3 b4 b5 b6 b7 \<Rightarrow> Char b0 b1 b2 b3 b4 True b6 b7)
     else c)"

definition toLowerCase :: "string \<Rightarrow> string" where
  "toLowerCase s = map toLowerChar s"

definition replaceAmp :: "string \<Rightarrow> string" where
  \<comment> \<open>\<open>.replace(/&/g, "and")\<close>\<close>
  "replaceAmp s = concat (map (\<lambda>c. if c = CHR ''&'' then ''and'' else [c]) s)"

definition allowed :: "char \<Rightarrow> bool" where
  \<comment> \<open>the class \<open>[a-zA-Z0-9._/ -]\<close>\<close>
  "allowed c = (c \<in> set
     ''abcdefghijklmnopqrstuvwxyzABCDEFGHIJKLMNOPQRSTUVWXYZ0123456789._/ -'')"

function collapse :: "(char \<Rightarrow> bool) \<Rightarrow> string \<Rightarrow> string" where
  \<comment> \<open>\<open>.replace(/P+/g, "-")\<close>: every maximal run of characters in \<open>P\<close> becomes one hyphen\<close>
  "collapse P [] = []"
| "collapse P (c # cs) =
     (if P c then CHR ''-'' # collapse P (dropWhile P cs) else c # collapse P cs)"
  by pat_completeness auto
termination
  by (relation "measure (\<lambda>(P, s). length s)")
     (auto simp: less_Suc_eq_le length_dropWhile_le)

definition isHyphen :: "char \<Rightarrow> bool" where
  "isHyphen c = (c = CHR ''-'')"

definition toKebab :: "string \<Rightarrow> string" where
  "toKebab s =
     toLowerCase (collapse isHyphen (collapse isSpace (filter allowed (replaceAmp (trim s)))))"

fun replaceFirst :: "string \<Rightarrow> string \<Rightarrow> string \<Rightarrow> string" where
  \<comment> \<open>\<open>s.replace(pat, rep)\<close> with a string pattern: the first occurrence only. The
      replacement is taken literally; the one caller passes a \<open>toKebab\<close> result, which
      has no \<open>$\<close>.\<close>
  "replaceFirst pat rep [] = (if pat = [] then rep else [])"
| "replaceFirst pat rep (c # cs) =
     (if prefix pat (c # cs) then rep @ drop (length pat) (c # cs)
      else c # replaceFirst pat rep cs)"

definition isSlash :: "char \<Rightarrow> bool" where
  "isSlash c = (c = CHR ''/'')"

definition basename :: "string \<Rightarrow> string" where
  \<comment> \<open>Node's POSIX \<open>path.basename\<close>: trailing slashes dropped, then the last component\<close>
  "basename p = rev (takeWhile (\<lambda>c. \<not> isSlash c) (dropWhile isSlash (rev p)))"

definition dirname :: "string \<Rightarrow> string" where
  \<comment> \<open>Node's POSIX \<open>path.dirname\<close>: the scan runs from the end down to index 1\<close>
  "dirname p = (case p of
       [] \<Rightarrow> ''.''
     | c # cs \<Rightarrow>
        (case dropWhile (\<lambda>x. \<not> isSlash x) (dropWhile isSlash (rev cs)) of
           [] \<Rightarrow> (if isSlash c then ''/'' else ''.'')
         | _ # pre \<Rightarrow> (if isSlash c \<and> pre = [] then ''//'' else c # rev pre)))"

section \<open>The registry document\<close>

text \<open>
  A record of the registry is a JavaScript object; the fields the tools read are
  strings, and an absent field is the empty string here (both are falsy, and the
  code reads them through \<open>x || ""\<close> or \<open>!x\<close>).
\<close>

record agent =
  name :: string
  category :: string
  source_file :: string
  description :: string

datatype agents_field =
    NoAgents                  \<comment> \<open>the document has no \<open>agents\<close> field\<close>
  | NotArray bool             \<comment> \<open>a value that is not an array; the flag is its truthiness\<close>
  | AgentArray "agent list"

record doc =
  categories :: "string \<rightharpoonup> string"   \<comment> \<open>\<open>data?.categories ?? {}\<close>; a falsy value is \<open>''''\<close>\<close>
  agents :: agents_field

section \<open>registry-lint: configuration\<close>

definition aliasMap :: "string \<rightharpoonup> string" where
  \<comment> \<open>own properties only: the members inherited from \<open>Object.prototype\<close> are not modelled\<close>
  "aliasMap = map_of
     [(''engineering'', ''01-core-development''),
      (''analysis'', ''10-research-analysis''),
      (''quality'', ''04-quality-security''),
      (''communication'', ''08-business-product''),
      (''business'', ''08-business-product''),
      (''specialized'', ''07-specialized-domains'')]"

definition rootCategoryKey :: string where
  "rootCategoryKey = ''superclaude-root''"

definition ROOT_DIR_DEFAULT :: string where
  "ROOT_DIR_DEFAULT = ''superclaude-root''"

definition getCatDir :: "(string \<rightharpoonup> string) \<Rightarrow> string \<Rightarrow> string" where
  \<comment> \<open>\<open>categoryMapDeclared[catKey] || catKey\<close>\<close>
  "getCatDir categoryMapDeclared catKey =
     (case categoryMapDeclared catKey of
        None \<Rightarrow> catKey
      | Some d \<Rightarrow> (if d = [] then catKey else d))"

definition ensurePrefixedByCategory :: "(string \<rightharpoonup> string) \<Rightarrow> string \<Rightarrow> string \<Rightarrow> string" where
  "ensurePrefixedByCategory categoryMapDeclared filePath categoryKey =
     (let catDir = getCatDir categoryMapDeclared categoryKey;
          base = basename filePath
      in if prefix (catDir @ ''/'') filePath then filePath else catDir @ ''/'' @ base)"

section \<open>registry-lint: processing\<close>

datatype problem =
    AgentWithoutName agent               \<comment> \<open>error: "Agent without name"\<close>
  | UnknownCategory string string string \<comment> \<open>warn: raw category, suggestion, name\<close>
  | MissingSourceFile string string      \<comment> \<open>warn: synthesized file name, name\<close>
  | LongDescription nat string           \<comment> \<open>warn: description length, name\<close>

record move =
  mfrom :: string
  mto :: string
  mname :: string

record lint_state =
  problems :: "problem list"
  moves :: "move list"
  kept :: "agent list"
  removed :: "(string \<times> agent) list"   \<comment> \<open>reason and record\<close>
  seenNames :: "string set"

definition init_state :: lint_state where
  "init_state = \<lparr>problems = [], moves = [], kept = [], removed = [], seenNames = {}\<rparr>"

definition defaultCategory :: string where
  "defaultCategory = ''01-core-development''"

definition normalizeCategory :: "(string \<rightharpoonup> string) \<Rightarrow> agent \<Rightarrow> string \<times> problem list" where
  \<comment> \<open>step 2 of the loop: the resolved category and the warning, if any\<close>
  "normalizeCategory categoryMapDeclared out =
     (let cat0 = trim (category out);
          cat = (case aliasMap cat0 of Some a \<Rightarrow> a | None \<Rightarrow> cat0)
      in if cat \<noteq> [] \<and> categoryMapDeclared cat = None \<and> cat \<noteq> rootCategoryKey
         then (let sugg = aliasMap (category out);
                   cat' = (case sugg of Some a \<Rightarrow> a | None \<Rightarrow> defaultCategory)
               in (if cat' = [] then defaultCategory else cat',
                   [UnknownCategory (category out)
                      (case sugg of Some a \<Rightarrow> a | None \<Rightarrow> ''choose one of declared keys'')
                      (name out)]))
         else (if cat = [] then defaultCategory else cat, []))"

definition declaredSource :: "agent \<Rightarrow> string \<times> problem list" where
  \<comment> \<open>step 3, first half: the trimmed \<open>source_file\<close>, synthesized from the name if empty\<close>
  "declaredSource out =
     (let src = trim (source_file out)
      in if src = []
         then (let guessed = toKebab (name out) @ ''.md''
               in (guessed, [MissingSourceFile guessed (name out)]))
         else (src, []))"

definition canonicalPath :: "(string \<rightharpoonup> string) \<Rightarrow> string \<Rightarrow> string \<Rightarrow> string" where
  \<comment> \<open>step 3, second half: \<open>norm\<close> from \<open>src\<close> and the resolved category\<close>
  "canonicalPath categoryMapDeclared cat src =
     (let normBase = toKebab (basename src);
          norm = replaceFirst (basename src) normBase src
      in if cat = rootCategoryKey
         then (if \<not> prefix (ROOT_DIR_DEFAULT @ ''/'') norm
               then ROOT_DIR_DEFAULT @ ''/'' @ normBase else norm)
         else ensurePrefixedByCategory categoryMapDeclared norm cat)"

definition processAgent :: "(string \<rightharpoonup> string) \<Rightarrow> lint_state \<Rightarrow> agent \<Rightarrow> lint_state" where
  \<comment> \<open>one iteration of \<open>for (const agent of agents)\<close>\<close>
  "processAgent categoryMapDeclared st a =
     (if name a = [] then st\<lparr>problems := problems st @ [AgentWithoutName a]\<rparr>
      else if name a \<in> seenNames st
      then st\<lparr>removed := removed st @ [(''duplicate-name'', a)]\<rparr>
      else
        (let (cat, p2) = normalizeCategory categoryMapDeclared a;
             (src, p3) = declaredSource a;
             norm = canonicalPath categoryMapDeclared cat src;
             mv = (if norm \<noteq> src then [\<lparr>mfrom = src, mto = norm, mname = name a\<rparr>] else []);
             p4 = (if description a \<noteq> [] \<and> length (description a) > 160
                   then [LongDescription (length (description a)) (name a)] else []);
             out = a\<lparr>category := cat, source_file := norm\<rparr>
         in \<lparr>problems = problems st @ p2 @ p3 @ p4,
             moves = moves st @ mv,
             kept = kept st @ [out],
             removed = removed st,
             seenNames = insert (name a) (seenNames st)\<rparr>))"

definition agentList :: "doc \<Rightarrow> agent list" where
  \<comment> \<open>\<open>Array.isArray(data?.agents) ? data.agents : []\<close>\<close>
  "agentList data = (case agents data of AgentArray xs \<Rightarrow> xs | _ \<Rightarrow> [])"

definition processAgents :: "(string \<rightharpoonup> string) \<Rightarrow> agent list \<Rightarrow> lint_state" where
  "processAgents categoryMapDeclared xs = foldl (processAgent categoryMapDeclared) init_state xs"

section \<open>The file tree\<close>

text \<open>
  Node's \<open>fs\<close> calls act on the tree below. A node is a file with its content or a
  directory with its entries in listing order. A path is resolved to the list of its
  components from the root, as \<open>path.resolve\<close> does against \<open>process.cwd()\<close>: empty
  components and \<open>.\<close> are dropped, \<open>..\<close> drops the component before it. Symbolic
  links are not modelled. A call that throws returns \<open>None\<close>.
\<close>

datatype node = File string | Dir "(string \<times> node) list"

fun lookup :: "string list \<Rightarrow> node \<Rightarrow> node option" where
  "lookup [] n = Some n"
| "lookup (c # cs) (File _) = None"
| "lookup (c # cs) (Dir es) = (case map_of es c of None \<Rightarrow> None | Some n \<Rightarrow> lookup cs n)"

fun mkdirp :: "string list \<Rightarrow> node \<Rightarrow> node option" where
  \<comment> \<open>\<open>mkdir\<close> with \<open>recursive: true\<close>: missing directories are created along the path;
      a file on the path makes the call throw\<close>
  "mkdirp [] (Dir es) = Some (Dir es)"
| "mkdirp [] (File _) = None"
| "mkdirp (c # cs) (File _) = None"
| "mkdirp (c # cs) (Dir es) =
     (case mkdirp cs (case map_of es c of None \<Rightarrow> Dir [] | Some n \<Rightarrow> n) of
        None \<Rightarrow> None
      | Some n' \<Rightarrow> Some (Dir (AList.update c n' es)))"

fun put :: "string list \<Rightarrow> node \<Rightarrow> node \<Rightarrow> node option" where
  \<comment> \<open>set the node at a path whose parent directory exists\<close>
  "put [] v n = None"
| "put (c # cs) v (File _) = None"
| "put [c] v (Dir es) = Some (Dir (AList.update c v es))"
| "put (c # cs) v (Dir es) =
     (case map_of es c of
        None \<Rightarrow> None
      | Some n \<Rightarrow> (case put cs v n of
                    None \<Rightarrow> None
                  | Some n' \<Rightarrow> Some (Dir (AList.update c n' es))))"

fun remove :: "string list \<Rightarrow> node \<Rightarrow> node" where
  "remove [] n = n"
| "remove (c # cs) (File x) = File x"
| "remove [c] (Dir es) = Dir (AList.delete c es)"
| "remove (c # cs) (Dir es) =
     (case map_of es c of
        None \<Rightarrow> Dir es
      | Some n \<Rightarrow> Dir (AList.update c (remove cs n) es))"

definition renameTree :: "string list \<Rightarrow> string list \<Rightarrow> node \<Rightarrow> node option" where
  \<comment> \<open>\<open>rename(2)\<close>: an existing file at the new path is replaced; a directory replaces
      only an empty directory and cannot move into itself\<close>
  "renameTree old new r =
     (case lookup old r of
        None \<Rightarrow> None
      | Some n \<Rightarrow>
          if old = [] \<or> new = [] then None
          else if old = new then Some r
          else if prefix old new then None
          else (case (n, lookup new r) of
                  (File _, Some (Dir _)) \<Rightarrow> None
                | (Dir _, Some (File _)) \<Rightarrow> None
                | (Dir _, Some (Dir (_ # _))) \<Rightarrow> None
                | _ \<Rightarrow> put new n (remove old r)))"

fun splitSlash :: "string \<Rightarrow> string list" where
  "splitSlash [] = [[]]"
| "splitSlash (c # cs) =
     (if isSlash c then [] # splitSlash cs
      else (case splitSlash cs of w # ws \<Rightarrow> (c # w) # ws | [] \<Rightarrow> [[c]]))"

definition normalizeComponents :: "string list \<Rightarrow> string list" where
  "normalizeComponents comps =
     foldl (\<lambda>acc c. if c = [] \<or> c = ''.'' then acc
                     else if c = ''..'' then butlast acc
                     else acc @ [c]) [] comps"

definition resolve :: "string \<Rightarrow> string \<Rightarrow> string list" where
  "resolve cwd p =
     normalizeComponents (splitSlash (if prefix ''/'' p then p else cwd @ ''/'' @ p))"

section \<open>The process\<close>

text \<open>
  What a run prints is a list of events, one for each \<open>console\<close> call of the source;
  the constructor names the line and carries the values interpolated into it.
\<close>

datatype event =
    UsageError                     \<comment> \<open>"Usage: node tools/registry-lint.mjs ..."\<close>
  | MissingPathError               \<comment> \<open>"Error: missing <registry.yml> path."\<close>
  | ParseError                     \<comment> \<open>"This YAML isn't trivially parseable ..." and the hint\<close>
  | ReportHeader                   \<comment> \<open>"=== Agent Registry Lint Report ==="\<close>
  | ReportTotals nat nat nat nat   \<comment> \<open>"Total: | Kept: | Removed (dupes): ()"\<close>
  | IssuesHeader                   \<comment> \<open>"Issues:"\<close>
  | Issue problem                  \<comment> \<open>" - [level] msg - name"\<close>
  | PathFixesHeader                \<comment> \<open>"Path fixes suggested:"\<close>
  | PathFix string string          \<comment> \<open>" - from  ->  to"\<close>
  | DuplicatesHeader               \<comment> \<open>"Duplicates dropped:"\<close>
  | DuplicateDropped string        \<comment> \<open>" - name"\<close>
  | NeedYaml                       \<comment> \<open>"To write fixes, we need 'yaml'. Run: npm i yaml"\<close>
  | WroteFixes string string       \<comment> \<open>"Wrote fixes to ymlPath (backup at bak)"\<close>
  | Moved string string            \<comment> \<open>"mv from -> to"\<close>
  | SkipNotFound string            \<comment> \<open>"(skip) could not find file to move: from"\<close>
  | MoveFailed string string       \<comment> \<open>"(warn) move failed from -> to: message"\<close>
  | AppliedMoves                   \<comment> \<open>"Applied file moves where possible."\<close>
  | ApplyLaterHint                 \<comment> \<open>"To apply file moves later, rerun with --apply-moves"
                                       and "Or manual git moves:"\<close>
  | GitMv string string            \<comment> \<open>"git mv "from" "to""\<close>
  | Ambiguous string nat           \<comment> \<open>"(ambiguous) base has n matches:"\<close>
  | Candidate string               \<comment> \<open>"  - candidate"\<close>
  | MissingSource string           \<comment> \<open>"(missing) could not find source for to"\<close>
  | RescueDone nat nat nat         \<comment> \<open>"Done. moved=, skipped=, unresolved_missing="\<close>

record world =
  cwd :: string      \<comment> \<open>\<open>process.cwd()\<close>: absolute, no trailing slash\<close>
  root :: node       \<comment> \<open>the tree from \<open>/\<close>\<close>
  out :: "event list"

datatype outcome =
    Completed        \<comment> \<open>the script ran to its end\<close>
  | Exited nat       \<comment> \<open>\<open>process.exit(n)\<close>\<close>
  | Uncaught         \<comment> \<open>an exception no \<open>catch\<close> handles ended the process\<close>

definition emit :: "event list \<Rightarrow> world \<Rightarrow> world" where
  "emit es w = w\<lparr>out := out w @ es\<rparr>"

definition existsSync :: "string \<Rightarrow> world \<Rightarrow> bool" where
  "existsSync p w = (p \<noteq> [] \<and> lookup (resolve (cwd w) p) (root w) \<noteq> None)"

definition readFileSync :: "string \<Rightarrow> world \<Rightarrow> string option" where
  "readFileSync p w =
     (if p = [] then None
      else (case lookup (resolve (cwd w) p) (root w) of
              Some (File c) \<Rightarrow> Some c
            | _ \<Rightarrow> None))"

definition writeFileSync :: "string \<Rightarrow> string \<Rightarrow> world \<Rightarrow> world option" where
  "writeFileSync p content w =
     (if p = [] then None
      else (case lookup (resolve (cwd w) p) (root w) of
              Some (Dir _) \<Rightarrow> None
            | _ \<Rightarrow> map_option (\<lambda>r. w\<lparr>root := r\<rparr>)
                     (put (resolve (cwd w) p) (File content) (root w))))"

definition mkdirSync :: "string \<Rightarrow> world \<Rightarrow> world option" where
  \<comment> \<open>always called with \<open>{ recursive: true }\<close>\<close>
  "mkdirSync p w =
     (if p = [] then None
      else map_option (\<lambda>r. w\<lparr>root := r\<rparr>) (mkdirp (resolve (cwd w) p) (root w)))"

definition renameSync :: "string \<Rightarrow> string \<Rightarrow> world \<Rightarrow> world option" where
  "renameSync old new w =
     (if old = [] \<or> new = [] then None
      else map_option (\<lambda>r. w\<lparr>root := r\<rparr>)
             (renameTree (resolve (cwd w) old) (resolve (cwd w) new) (root w)))"

section \<open>registry-lint: the run\<close>

text \<open>
  The parsers are not part of the repository: \<open>JSON.parse\<close>, and the \<open>yaml\<close> package,
  which may not be installed. A parser that throws returns \<open>None\<close>.
\<close>

record yaml_module =
  yaml_parse :: "string \<Rightarrow> doc option"
  yaml_stringify :: "doc \<Rightarrow> string"

record env =
  JSON_parse :: "string \<Rightarrow> doc option"
  yaml :: "yaml_module option"       \<comment> \<open>\<open>None\<close>: \<open>import('yaml')\<close> fails\<close>

definition load :: "env \<Rightarrow> string \<Rightarrow> doc option" where
  \<comment> \<open>JSON first, then the \<open>yaml\<close> package; \<open>None\<close> is the path to \<open>process.exit(1)\<close>\<close>
  "load e raw =
     (case JSON_parse e raw of
        Some data \<Rightarrow> Some data
      | None \<Rightarrow> (case yaml e of
                   None \<Rightarrow> None
                 | Some y \<Rightarrow> yaml_parse y raw))"

record summary =
  s_total :: nat
  s_kept :: nat
  s_removed :: nat
  s_duplicates_removed :: nat
  s_problems :: nat
  s_moves :: nat

definition summarize :: "agent list \<Rightarrow> lint_state \<Rightarrow> summary" where
  "summarize xs st =
     \<lparr>s_total = length xs,
      s_kept = length (kept st),
      s_removed = length (removed st),
      s_duplicates_removed = length (filter (\<lambda>r. fst r = ''duplicate-name'') (removed st)),
      s_problems = length (problems st),
      s_moves = length (moves st)\<rparr>"

definition printReport :: "summary \<Rightarrow> lint_state \<Rightarrow> event list" where
  "printReport sm st =
     [ReportHeader,
      ReportTotals (s_total sm) (s_kept sm) (s_removed sm) (s_duplicates_removed sm)]
     @ (if problems st \<noteq> [] then IssuesHeader # map Issue (problems st) else [])
     @ (if moves st \<noteq> [] then PathFixesHeader # map (\<lambda>m. PathFix (mfrom m) (mto m)) (moves st)
        else [])
     @ (if removed st \<noteq> [] then DuplicatesHeader # map (\<lambda>r. DuplicateDropped (name (snd r))) (removed st)
        else [])"

definition applyMove :: "move \<Rightarrow> world \<Rightarrow> outcome \<times> world" where
  \<comment> \<open>one iteration of \<open>for (const { from, to } of moves)\<close>; \<open>mkdirSync\<close> is outside the
      \<open>try\<close>, the two \<open>renameSync\<close> calls are inside\<close>
  "applyMove m w =
     (let toDir = dirname (mto m)
      in case mkdirSync toDir w of
           None \<Rightarrow> (Uncaught, w)
         | Some w1 \<Rightarrow>
             (Completed,
              if existsSync (mfrom m) w1
              then (case renameSync (mfrom m) (mto m) w1 of
                      Some w2 \<Rightarrow> emit [Moved (mfrom m) (mto m)] w2
                    | None \<Rightarrow> emit [MoveFailed (mfrom m) (mto m)] w1)
              else (let base = basename (mfrom m)
                    in if existsSync base w1
                       then (case renameSync base (mto m) w1 of
                               Some w2 \<Rightarrow> emit [Moved base (mto m)] w2
                             | None \<Rightarrow> emit [MoveFailed (mfrom m) (mto m)] w1)
                       else emit [SkipNotFound (mfrom m)] w1)))"

fun applyMoves :: "move list \<Rightarrow> world \<Rightarrow> outcome \<times> world" where
  "applyMoves [] w = (Completed, w)"
| "applyMoves (m # ms) w =
     (case applyMove m w of
        (Completed, w') \<Rightarrow> applyMoves ms w'
      | r \<Rightarrow> r)"

definition writeAndApply ::
  "env \<Rightarrow> bool \<Rightarrow> string \<Rightarrow> string \<Rightarrow> doc \<Rightarrow> lint_state \<Rightarrow> world \<Rightarrow> outcome \<times> world" where
  \<comment> \<open>the body of \<open>if (FIX)\<close>\<close>
  "writeAndApply e APPLY_MOVES ymlPath raw data st w =
     (let bak = ymlPath @ ''.bak''
      in case writeFileSync bak raw w of
           None \<Rightarrow> (Uncaught, w)
         | Some w1 \<Rightarrow>
            (case yaml e of
               None \<Rightarrow> (Exited 1, emit [NeedYaml] w1)
             | Some yamlMod \<Rightarrow>
                (let fixed = yaml_stringify yamlMod (data\<lparr>agents := AgentArray (kept st)\<rparr>)
                 in case writeFileSync ymlPath fixed w1 of
                      None \<Rightarrow> (Uncaught, w1)
                    | Some w2 \<Rightarrow>
                       (let w3 = emit [WroteFixes ymlPath bak] w2
                        in if APPLY_MOVES \<and> moves st \<noteq> []
                           then (case applyMoves (moves st) w3 of
                                   (Completed, w4) \<Rightarrow> (Completed, emit [AppliedMoves] w4)
                                 | r \<Rightarrow> r)
                           else if moves st \<noteq> []
                           then (Completed,
                                 emit (ApplyLaterHint #
                                       map (\<lambda>m. GitMv (mfrom m) (mto m)) (moves st)) w3)
                           else (Completed, w3)))))"

definition lint_main :: "env \<Rightarrow> string list \<Rightarrow> world \<Rightarrow> outcome \<times> world" where
  \<comment> \<open>\<open>args\<close> is \<open>process.argv.slice(2)\<close>\<close>
  "lint_main e args w =
     (if args = [] then (Exited 1, emit [UsageError] w)
      else
        (let FIX = (''--fix'' \<in> set args);
             APPLY_MOVES = (''--apply-moves'' \<in> set args)
         in case filter (\<lambda>a. \<not> prefix ''--'' a) args of
              [] \<Rightarrow> (Exited 1, emit [MissingPathError] w)
            | ymlPath # _ \<Rightarrow>
               if ymlPath = [] then (Exited 1, emit [MissingPathError] w)
               else (case readFileSync ymlPath w of
                       None \<Rightarrow> (Uncaught, w)
                     | Some raw \<Rightarrow>
                        (case load e raw of
                           None \<Rightarrow> (Exited 1, emit [ParseError] w)
                         | Some data \<Rightarrow>
                            (let xs = agentList data;
                                 st = processAgents (categories data) xs;
                                 w1 = emit (printReport (summarize xs st) st) w
                             in if FIX
                                then writeAndApply e APPLY_MOVES ymlPath raw data st w1
                                else (Completed, w1))))))"

section \<open>rescue-move-by-basename\<close>

definition pathJoin :: "string \<Rightarrow> string \<Rightarrow> string" where
  \<comment> \<open>\<open>path.join(dir, name)\<close> for a normalized directory and an entry name\<close>
  "pathJoin dir nm = (if suffix ''/'' dir then dir @ nm else dir @ ''/'' @ nm)"

fun walk :: "string \<Rightarrow> (string \<times> node) list \<Rightarrow> string list" where
  \<comment> \<open>\<open>walk(dir)\<close> over the entries \<open>readdirSync(dir)\<close> returns\<close>
  "walk dir [] = []"
| "walk dir ((nm, Dir sub) # es) = walk (pathJoin dir nm) sub @ walk dir es"
| "walk dir ((nm, File c) # es) = pathJoin dir nm # walk dir es"

definition walkRoot :: "world \<Rightarrow> string list option" where
  \<comment> \<open>\<open>walk(root)\<close> with \<open>root = process.cwd()\<close>\<close>
  "walkRoot w =
     (case lookup (resolve (cwd w) (cwd w)) (root w) of
        Some (Dir es) \<Rightarrow> Some (walk (cwd w) es)
      | _ \<Rightarrow> None)"

definition buildIndex :: "string list \<Rightarrow> (string \<rightharpoonup> string list)" where
  \<comment> \<open>the \<open>Map\<close> from lower-cased basename to the full paths, in walk order\<close>
  "buildIndex all =
     foldl (\<lambda>index p.
              (let b = toLowerCase (basename p)
               in index(b \<mapsto> (case index b of None \<Rightarrow> [] | Some ps \<Rightarrow> ps) @ [p])))
           Map.empty all"

definition wantList :: "doc \<Rightarrow> string list option" where
  \<comment> \<open>\<open>(doc.agents || []).map(a => a.source_file).filter(Boolean)\<close>; a truthy value that
      is not an array has no \<open>map\<close>\<close>
  "wantList d =
     (case agents d of
        NoAgents \<Rightarrow> Some []
      | NotArray truthy \<Rightarrow> (if truthy then None else Some [])
      | AgentArray xs \<Rightarrow> Some (filter (\<lambda>s. s \<noteq> []) (map source_file xs)))"

record counts =
  moved :: nat
  missing :: nat
  skipped :: nat

definition rescueStep ::
  "(string \<rightharpoonup> string list) \<Rightarrow> string \<Rightarrow> counts \<times> world \<Rightarrow> outcome \<times> counts \<times> world" where
  \<comment> \<open>one iteration of \<open>for (const to of want)\<close>\<close>
  "rescueStep index to cw =
     (let c = fst cw; w = snd cw;
          base = toLowerCase (basename to)
      in if existsSync to w then (Completed, c\<lparr>skipped := skipped c + 1\<rparr>, w)
         else
           (let candidates = (case index base of None \<Rightarrow> [] | Some ps \<Rightarrow> ps)
            in if length candidates = 1
               then (let from = hd candidates
                     in case mkdirSync (dirname to) w of
                          None \<Rightarrow> (Uncaught, c, w)
                        | Some w1 \<Rightarrow>
                           (case renameSync from to w1 of
                              Some w2 \<Rightarrow>
                                (Completed, c\<lparr>moved := moved c + 1\<rparr>, emit [Moved from to] w2)
                            | None \<Rightarrow> (Completed, c, emit [MoveFailed from to] w1)))
               else if length candidates > 1
               then (Completed, c,
                     emit (Ambiguous base (length candidates) # map Candidate candidates) w)
               else (Completed, c\<lparr>missing := missing c + 1\<rparr>, emit [MissingSource to] w)))"

fun rescueLoop ::
  "(string \<rightharpoonup> string list) \<Rightarrow> string list \<Rightarrow> counts \<times> world \<Rightarrow> outcome \<times> counts \<times> world" where
  "rescueLoop index [] cw = (Completed, cw)"
| "rescueLoop index (to # want) cw =
     (case rescueStep index to cw of
        (Completed, cw') \<Rightarrow> rescueLoop index want cw'
      | r \<Rightarrow> r)"

definition rescuePass :: "yaml_module \<Rightarrow> string \<Rightarrow> world \<Rightarrow> outcome \<times> world" where
  \<comment> \<open>the script from \<open>yaml.parse(fs.readFileSync(registry, "utf8"))\<close> on\<close>
  "rescuePass y registry w =
     (case readFileSync registry w of
        None \<Rightarrow> (Uncaught, w)
      | Some raw \<Rightarrow>
         (case yaml_parse y raw of
            None \<Rightarrow> (Uncaught, w)
          | Some d \<Rightarrow>
             (case wantList d of
                None \<Rightarrow> (Uncaught, w)
              | Some want \<Rightarrow>
                 (case walkRoot w of
                    None \<Rightarrow> (Uncaught, w)
                  | Some paths \<Rightarrow>
                     (let all = filter (suffix ''.md'') paths;
                          index = buildIndex all
                      in case rescueLoop index want
                                (\<lparr>moved = 0, missing = 0, skipped = 0\<rparr>, w) of
                           (Completed, c, w') \<Rightarrow>
                             (Completed, emit [RescueDone (moved c) (skipped c) (missing c)] w')
                         | (r, c, w') \<Rightarrow> (r, w'))))))"

definition rescue_main :: "env \<Rightarrow> string list \<Rightarrow> world \<Rightarrow> outcome \<times> world" where
  \<comment> \<open>\<open>args\<close> is \<open>process.argv.slice(2)\<close>, so \<open>process.argv[2]\<close> is its first element; the
      static \<open>import yaml from "yaml"\<close> fails before anything runs if the package is absent\<close>
  "rescue_main e args w =
     (case yaml e of
        None \<Rightarrow> (Uncaught, w)
      | Some y \<Rightarrow>
         (let registry = (case args of
                            [] \<Rightarrow> ''improved-index.yml''
                          | a # _ \<Rightarrow> (if a = [] then ''improved-index.yml'' else a))
          in rescuePass y registry w))"

section \<open>Properties: definitions\<close>

text \<open>Kebab form: lower-case letters, digits, dot, underscore, slash and hyphen only (so
  no whitespace and no upper case), and no two hyphens in a row.\<close>

definition kebabChar :: "char \<Rightarrow> bool" where
  "kebabChar c = (c \<in> set ''abcdefghijklmnopqrstuvwxyz0123456789._/-'')"

fun noHyphenRun :: "string \<Rightarrow> bool" where
  "noHyphenRun [] = True"
| "noHyphenRun [a] = True"
| "noHyphenRun (a # b # r) = (\<not> (isHyphen a \<and> isHyphen b) \<and> noHyphenRun (b # r))"

text \<open>The record the loop pushes to \<open>kept\<close> for an input record: \<open>out\<close> with its
  category and \<open>source_file\<close> overwritten.\<close>

definition canonical :: "(string \<rightharpoonup> string) \<Rightarrow> agent \<Rightarrow> agent" where
  "canonical cats a =
     a\<lparr>category := fst (normalizeCategory cats a),
       source_file := canonicalPath cats (fst (normalizeCategory cats a)) (fst (declaredSource a))\<rparr>"

definition named :: "agent \<Rightarrow> bool" where
  "named a = (name a \<noteq> [])"

text \<open>The specification of the DuplicateResolver, in its words: the first record in
  input order is kept for each identity key, every later record with that key is dropped,
  and the order of the survivors is the input order.\<close>

fun firstOccurrences :: "agent list \<Rightarrow> agent list" where
  "firstOccurrences [] = []"
| "firstOccurrences (x # xs) = x # filter (\<lambda>a. name a \<noteq> name x) (firstOccurrences xs)"

definition isDirectory :: "string \<Rightarrow> world \<Rightarrow> bool" where
  "isDirectory p w =
     (case lookup (resolve (cwd w) p) (root w) of Some (Dir _) \<Rightarrow> True | _ \<Rightarrow> False)"

section \<open>Example inputs\<close>

text \<open>A registry with two records, a working directory \<open>/repo\<close> that holds the registry
  file, a few Markdown files and one category directory, and the parsers' answers on the
  registry file's content.\<close>

definition ex_agents :: "agent list" where
  "ex_agents =
     [\<lparr>name = ''x'', category = ''engineering'', source_file = ''foo.md'', description = ''''\<rparr>,
      \<lparr>name = ''y'', category = '''', source_file = ''My File.md'', description = ''''\<rparr>]"

definition ex_doc :: doc where
  "ex_doc = \<lparr>categories = Map.empty, agents = AgentArray ex_agents\<rparr>"

definition ex_wanted :: doc where
  "ex_wanted = \<lparr>categories = Map.empty, agents = AgentArray
     [\<lparr>name = ''x'', category = '''', source_file = ''a/x.md'', description = ''''\<rparr>,
      \<lparr>name = ''x2'', category = '''', source_file = ''b/x.md'', description = ''''\<rparr>,
      \<lparr>name = ''r'', category = '''', source_file = ''c/reviewer.md'', description = ''''\<rparr>,
      \<lparr>name = ''n'', category = '''', source_file = ''c/nothing.md'', description = ''''\<rparr>]\<rparr>"

definition ex_yaml :: yaml_module where
  "ex_yaml = \<lparr>yaml_parse = (\<lambda>raw. if raw = ''registry'' then Some ex_wanted else None),
              yaml_stringify = (\<lambda>d. ''fixed'')\<rparr>"

definition ex_env :: env where
  "ex_env = \<lparr>JSON_parse = (\<lambda>raw. if raw = ''registry'' then Some ex_doc else None),
             yaml = Some ex_yaml\<rparr>"

definition ex_env_json :: env where
  "ex_env_json = \<lparr>JSON_parse = (\<lambda>raw. Some \<lparr>categories = Map.empty, agents = NoAgents\<rparr>),
                  yaml = Some ex_yaml\<rparr>"

definition ex_entries :: "(string \<times> node) list" where
  "ex_entries =
       [(''improved-index.yml'', File ''registry''),
        (''foo.md'', File ''new''),
        (''x.md'', File ''X''),
        (''d1'', Dir [(''reviewer.md'', File ''1'')]),
        (''d2'', Dir [(''reviewer.md'', File ''2'')]),
        (''d3'', Dir [(''reviewer.md'', File ''3'')]),
        (''01-core-development'', Dir [(''foo.md'', File ''old'')])]"

definition ex_world :: world where
  "ex_world = \<lparr>cwd = ''/repo'', root = Dir [(''repo'', Dir ex_entries)], out = []\<rparr>"

definition ex_index :: "string \<rightharpoonup> string list" where
  \<comment> \<open>the index the rescue script builds in the example tree\<close>
  "ex_index = buildIndex (filter (suffix ''.md'') (walk ''/repo'' ex_entries))"

definition counts0 :: counts where
  "counts0 = \<lparr>moved = 0, missing = 0, skipped = 0\<rparr>"

definition ex_world_bare :: world where
  \<comment> \<open>a tree with the registry file only\<close>
  "ex_world_bare =
     \<lparr>cwd = ''/repo'', root = Dir [(''repo'', Dir [(''improved-index.yml'', File ''registry'')])],
      out = []\<rparr>"

definition ex_world_new_dir :: world where
  "ex_world_new_dir =
     \<lparr>cwd = ''/repo'', root = Dir [(''repo'', Dir (ex_entries @ [(''new-dir'', Dir [])]))], out = []\<rparr>"

section \<open>Basename normalization\<close>

lemma kebabChar_props:
  "kebabChar c \<Longrightarrow> allowed c \<and> \<not> isSpace c \<and> \<not> isUpper c \<and> c \<noteq> CHR ''&''"
  unfolding kebabChar_def allowed_def isSpace_def isUpper_def
  by (elim disjE | simp)+

lemma toLowerChar_allowed:
  "allowed c \<Longrightarrow>
     (\<not> isSpace c \<longrightarrow> kebabChar (toLowerChar c)) \<and> isHyphen (toLowerChar c) = isHyphen c"
  unfolding allowed_def set_simps insert_iff empty_iff
  by (elim disjE; simp add: kebabChar_def isSpace_def isUpper_def toLowerChar_def isHyphen_def)

lemma collapse_set: "set (collapse P xs) \<subseteq> {c \<in> set xs. \<not> P c} \<union> {CHR ''-''}"
proof (induction P xs rule: collapse.induct)
  case (1 P) show ?case by simp
next
  case (2 P c cs)
  show ?case
  proof (cases "P c")
    case True
    have "set (dropWhile P cs) \<subseteq> set cs" by (rule set_dropWhileD[THEN subsetI]) 
    with 2(1)[OF True] True show ?thesis by auto
  next
    case False
    with 2(2)[OF False] show ?thesis by auto
  qed
qed

lemma collapse_head:
  "xs \<noteq> [] \<Longrightarrow> \<not> P (hd xs) \<Longrightarrow> collapse P xs \<noteq> [] \<and> hd (collapse P xs) = hd xs"
  by (cases xs) auto

lemma collapse_noRun: "noHyphenRun (collapse isHyphen xs)"
proof (induction "isHyphen" xs rule: collapse.induct)
  case 1 show ?case by simp
next
  case (2 c cs)
  show ?case
  proof (cases "isHyphen c")
    case True
    let ?d = "dropWhile isHyphen cs"
    show ?thesis
    proof (cases "?d = []")
      case True
      have "collapse isHyphen (c # cs) = [CHR ''-'']"
        using \<open>isHyphen c\<close> by (simp only: collapse.simps True if_True)
      then show ?thesis by simp
    next
      case False
      then have "\<not> isHyphen (hd ?d)" by (rule hd_dropWhile)
      with False have "collapse isHyphen ?d \<noteq> [] \<and> hd (collapse isHyphen ?d) = hd ?d"
        by (simp add: collapse_head)
      then obtain y ys where y: "collapse isHyphen ?d = y # ys" "y = hd ?d"
        by (cases "collapse isHyphen ?d") auto
      with \<open>\<not> isHyphen (hd ?d)\<close> 2(1)[OF True] True show ?thesis by simp
    qed
  next
    case False
    with 2(2)[OF False] show ?thesis by (cases "collapse isHyphen cs") auto
  qed
qed

lemma noRun_map:
  "\<forall>c \<in> set xs. allowed c \<Longrightarrow> noHyphenRun (map toLowerChar xs) = noHyphenRun xs"
  by (induction xs rule: noHyphenRun.induct) (simp_all add: toLowerChar_allowed)

lemma collapse_id_none: "\<forall>c \<in> set xs. \<not> P c \<Longrightarrow> collapse P xs = xs"
  by (induction xs) auto

lemma collapse_id_noRun: "noHyphenRun xs \<Longrightarrow> collapse isHyphen xs = xs"
proof (induction xs rule: noHyphenRun.induct)
  case 1
  show ?case by simp
next
  case (2 a)
  show ?case by (simp add: isHyphen_def)
next
  case (3 a b r)
  then show ?case by (cases "isHyphen a") (auto simp: isHyphen_def)
qed

lemma trim_id: "\<forall>c \<in> set xs. \<not> isSpace c \<Longrightarrow> trim xs = xs"
proof -
  assume a: "\<forall>c \<in> set xs. \<not> isSpace c"
  have d: "\<And>ys. \<forall>c \<in> set ys. \<not> isSpace c \<Longrightarrow> dropWhile isSpace ys = ys"
    by (case_tac ys) auto
  from a show ?thesis by (simp add: trim_def d)
qed

lemma replaceAmp_id: "CHR ''&'' \<notin> set xs \<Longrightarrow> replaceAmp xs = xs"
  by (induction xs) (auto simp: replaceAmp_def)

lemma toLowerCase_id: "\<forall>c \<in> set xs. \<not> isUpper c \<Longrightarrow> toLowerCase xs = xs"
  by (induction xs) (auto simp: toLowerCase_def toLowerChar_def)

lemma toKebab_fixed_point:
  assumes "\<forall>c \<in> set k. kebabChar c" "noHyphenRun k"
  shows "toKebab k = k"
proof -
  from assms(1) have p: "\<forall>c \<in> set k. allowed c" "\<forall>c \<in> set k. \<not> isSpace c"
    "\<forall>c \<in> set k. \<not> isUpper c" "CHR ''&'' \<notin> set k"
    using kebabChar_props by blast+
  have "filter allowed k = k" using p(1) by simp
  then show ?thesis
    using p assms(2)
    by (simp add: toKebab_def trim_id replaceAmp_id collapse_id_none collapse_id_noRun toLowerCase_id)
qed

lemma hyphen_allowed: "allowed (CHR ''-'') \<and> \<not> isSpace (CHR ''-'')"
  by (simp add: allowed_def isSpace_def)

lemma toKebab_stage:
  "\<forall>c \<in> set (collapse isHyphen (collapse isSpace (filter allowed xs))). allowed c \<and> \<not> isSpace c"
proof -
  let ?f = "filter allowed xs"
  have 2: "\<forall>c \<in> set (collapse isSpace ?f). allowed c \<and> \<not> isSpace c"
    using collapse_set[of isSpace ?f] hyphen_allowed by auto
  show ?thesis
    using collapse_set[of isHyphen "collapse isSpace ?f"] 2 hyphen_allowed by auto
qed

lemma toKebab_chars: "\<forall>c \<in> set (toKebab s). kebabChar c"
  using toKebab_stage[of "replaceAmp (trim s)"]
  by (auto simp: toKebab_def toLowerCase_def toLowerChar_allowed)

lemma toKebab_noRun: "noHyphenRun (toKebab s)"
  using toKebab_stage[of "replaceAmp (trim s)"]
  by (simp add: toKebab_def toLowerCase_def noRun_map collapse_noRun)








text \<open>C6: \<open>toKebab\<close> is idempotent: normalizing a normalized name changes nothing; and the
  declared basename \<open>My File.md\<close> normalizes to \<open>my-file.md\<close>.\<close>

theorem toKebab_idempotent:
  "toKebab (toKebab s) = toKebab s \<and> toKebab ''My File.md'' = ''my-file.md''"
proof
  show "toKebab (toKebab s) = toKebab s"
    by (rule toKebab_fixed_point[OF toKebab_chars toKebab_noRun])
  show "toKebab ''My File.md'' = ''my-file.md''"
    by code_simp
qed

section \<open>The processing loop\<close>

lemma processAgent_kept:
  "kept (processAgent cats st a) =
     (if named a \<and> name a \<notin> seenNames st then kept st @ [canonical cats a] else kept st)"
  by (simp add: processAgent_def canonical_def named_def Let_def split: prod.splits)

lemma processAgent_seen:
  "seenNames (processAgent cats st a) =
     (if named a then insert (name a) (seenNames st) else seenNames st)"
  by (auto simp add: processAgent_def named_def Let_def split: prod.splits)

lemma foldl_kept:
  "kept (foldl (processAgent cats) st xs) =
     kept st @ map (canonical cats)
       (filter (\<lambda>a. name a \<notin> seenNames st) (firstOccurrences (filter named xs)))"
proof (induction xs arbitrary: st)
  case Nil
  show ?case by simp
next
  case (Cons x xs)
  let ?st = "processAgent cats st x"
  let ?F = "firstOccurrences (filter named xs)"
  show ?case
  proof (cases "named x")
    case False
    then show ?thesis
      by (simp add: Cons.IH processAgent_kept processAgent_seen)
  next
    case True
    show ?thesis
    proof (cases "name x \<in> seenNames st")
      case True
      have "filter (\<lambda>a. name a \<notin> seenNames st) (filter (\<lambda>a. name a \<noteq> name x) ?F)
            = filter (\<lambda>a. name a \<notin> seenNames st) ?F"
        using True by (auto intro: filter_cong)
      with True \<open>named x\<close> show ?thesis
        by (simp add: Cons.IH processAgent_kept processAgent_seen insert_absorb)
    next
      case False
      have "filter (\<lambda>a. name a \<notin> insert (name x) (seenNames st)) ?F
            = filter (\<lambda>a. name a \<notin> seenNames st) (filter (\<lambda>a. name a \<noteq> name x) ?F)"
        by (auto intro: filter_cong)
      with False \<open>named x\<close> show ?thesis
        by (simp add: Cons.IH processAgent_kept processAgent_seen)
    qed
  qed
qed

lemma kept_processAgents:
  "kept (processAgents cats xs) = map (canonical cats) (firstOccurrences (filter named xs))"
  by (simp add: processAgents_def foldl_kept init_state_def)

lemma set_firstOccurrences: "name ` set (firstOccurrences xs) = name ` set xs"
proof (induction xs)
  case Nil show ?case by simp
next
  case (Cons x xs)
  have "name ` set (filter (\<lambda>a. name a \<noteq> name x) (firstOccurrences xs))
        = name ` set (firstOccurrences xs) - {name x}" by auto
  with Cons show ?case by auto
qed


lemma distinct_firstOccurrences: "distinct (map name (firstOccurrences xs))"
proof (induction xs)
  case Nil show ?case by simp
next
  case (Cons x xs)
  then show ?case by (auto simp: distinct_map_filter)
qed

lemma subseq_firstOccurrences: "subseq (firstOccurrences xs) xs"
proof (induction xs)
  case Nil show ?case by simp
next
  case (Cons x xs)
  have "subseq (filter (\<lambda>a. name a \<noteq> name x) (firstOccurrences xs)) (firstOccurrences xs)"
    by simp
  from this Cons have "subseq (filter (\<lambda>a. name a \<noteq> name x) (firstOccurrences xs)) xs"
    by (rule subseq_order.trans)
  then show ?case by simp
qed

lemma name_canonical: "name (canonical cats a) = name a"
  by (simp add: canonical_def)


text \<open>C3: the accepted output holds exactly one record for each identity key of the
  input, the first one in input order (normalized), and the survivors are in input order.\<close>

theorem dedupe_keeps_first_occurrence:
  "kept (processAgents cats xs) = map (canonical cats) (firstOccurrences (filter named xs))
   \<and> distinct (map name (kept (processAgents cats xs)))
   \<and> name ` set (kept (processAgents cats xs)) = name ` set xs - {[]}
   \<and> subseq (firstOccurrences (filter named xs)) xs"
proof -
  have d: "distinct (map name (kept (processAgents cats xs)))"
    using distinct_firstOccurrences[of "filter named xs"]
    by (simp add: kept_processAgents o_def name_canonical)
  have "name ` set (kept (processAgents cats xs)) = name ` set (filter named xs)"
    using set_firstOccurrences[of "filter named xs"]
    by (simp add: kept_processAgents image_image name_canonical)
  also have "\<dots> = name ` set xs - {[]}" by (auto simp: named_def)
  finally have s: "name ` set (kept (processAgents cats xs)) = name ` set xs - {[]}" .
  have "subseq (firstOccurrences (filter named xs)) (filter named xs)"
    by (rule subseq_firstOccurrences)
  then have q: "subseq (firstOccurrences (filter named xs)) xs"
    using subseq_order.trans subseq_filter_left by blast
  show ?thesis using d s q kept_processAgents by blast
qed

text \<open>Scenario A of the specification: two records share the key \<open>x\<close>; the record
  declared at \<open>a.md\<close> is kept and one duplicate removal is reported.\<close>

lemma scenario_A:
  "map source_file (kept (processAgents Map.empty
      [\<lparr>name = ''x'', category = '''', source_file = ''a.md'', description = ''''\<rparr>,
       \<lparr>name = ''x'', category = '''', source_file = ''b.md'', description = ''''\<rparr>]))
     = [''01-core-development/a.md'']
   \<and> map (\<lambda>r. source_file (snd r)) (removed (processAgents Map.empty
      [\<lparr>name = ''x'', category = '''', source_file = ''a.md'', description = ''''\<rparr>,
       \<lparr>name = ''x'', category = '''', source_file = ''b.md'', description = ''''\<rparr>]))
     = [''b.md'']"
  by code_simp







section \<open>The file tree and the move loop\<close>

lemma mkdirp_dir: "mkdirp cs n = Some n' \<Longrightarrow> \<exists>es. lookup cs n' = Some (Dir es)"
proof (induction cs n arbitrary: n' rule: mkdirp.induct)
  case (4 c cs es)
  then show ?case by (auto split: option.splits simp: update_conv')
qed auto

lemma mkdirp_keeps_file:
  "lookup q n = Some (File x) \<Longrightarrow> mkdirp cs n = Some n' \<Longrightarrow> lookup q n' = Some (File x)"
proof (induction cs n arbitrary: q n' rule: mkdirp.induct)
  case (4 c cs es)
  from 4(3) obtain m where m: "mkdirp cs (case map_of es c of None \<Rightarrow> Dir [] | Some n \<Rightarrow> n) = Some m"
    and n': "n' = Dir (AList.update c m es)"
    by (auto split: option.splits)
  show ?case
  proof (cases q)
    case Nil
    with 4(2) show ?thesis by simp
  next
    case (Cons k ks)
    show ?thesis
    proof (cases "k = c")
      case True
      with Cons 4(2) obtain ch where ch: "map_of es c = Some ch" "lookup ks ch = Some (File x)"
        by (auto split: option.splits)
      with m have "lookup ks m = Some (File x)" using 4(1)[of ks m] by simp
      with True Cons n' show ?thesis by (simp add: update_conv')
    next
      case False
      with Cons 4(2) n' show ?thesis by (simp add: update_conv')
    qed
  qed
qed auto

lemma mkdirSync_isDirectory: "mkdirSync p w = Some w1 \<Longrightarrow> isDirectory p w1"
  by (auto simp: mkdirSync_def isDirectory_def split: if_splits dest: mkdirp_dir)

lemma mkdirSync_keeps_file:
  "readFileSync q w = Some x \<Longrightarrow> mkdirSync p w = Some w1 \<Longrightarrow> readFileSync q w1 = Some x"
  by (auto simp: mkdirSync_def readFileSync_def split: if_splits option.splits node.splits
      dest: mkdirp_keeps_file)

lemma readFileSync_emit [simp]: "readFileSync p (emit es w) = readFileSync p w"
  by (simp add: readFileSync_def emit_def)

lemma isDirectory_emit [simp]: "isDirectory p (emit es w) = isDirectory p w"
  by (simp add: isDirectory_def emit_def)

lemma put_lookup: "put p v r = Some r' \<Longrightarrow> lookup p r' = Some v"
proof (induction p v r arbitrary: r' rule: put.induct)
  case (4 c d ds v es)
  then show ?case by (auto split: option.splits simp: update_conv')
qed (auto simp: update_conv')

lemma renameTree_target: "renameTree old new r = Some r' \<Longrightarrow> lookup new r' = lookup old r"
  by (auto simp: renameTree_def split: option.splits if_splits node.splits list.splits
      dest: put_lookup)

lemma renameSync_target:
  "renameSync old new w = Some w' \<Longrightarrow> readFileSync new w' = readFileSync old w"
  by (auto simp: renameSync_def readFileSync_def split: if_splits dest!: renameTree_target)

lemma root_emit [simp]: "root (emit es w) = root w"
  by (simp add: emit_def)

lemma applyMove_not_found:
  assumes "mkdirSync (dirname t) w = Some w1"
    and "\<not> existsSync f w1" and "\<not> existsSync (basename f) w1"
  shows "applyMove \<lparr>mfrom = f, mto = t, mname = n\<rparr> w = (Completed, emit [SkipNotFound f] w1)"
  using assms by (simp add: applyMove_def Let_def)

text \<open>C1 fails as stated. The move loop never asks whether the destination exists. In
  the example tree \<open>01-core-development/foo.md\<close> exists with content \<open>old\<close>; the move
  planned for the first record renames \<open>foo.md\<close> over it, the line printed is the \<open>mv\<close>
  line, and after the whole \<open>--fix --apply-moves\<close> run the destination holds \<open>new\<close>.\<close>

theorem move_overwrites_existing_destination:
  "existsSync ''01-core-development/foo.md'' ex_world
   \<and> readFileSync ''01-core-development/foo.md'' ex_world = Some ''old''
   \<and> moves (processAgents (categories ex_doc) (agentList ex_doc)) =
        [\<lparr>mfrom = ''foo.md'', mto = ''01-core-development/foo.md'', mname = ''x''\<rparr>,
         \<lparr>mfrom = ''My File.md'', mto = ''01-core-development/my-file.md'', mname = ''y''\<rparr>]
   \<and> applyMove \<lparr>mfrom = ''foo.md'', mto = ''01-core-development/foo.md'', mname = ''x''\<rparr> ex_world
       = (Completed,
          \<lparr>cwd = ''/repo'',
           root = Dir [(''repo'', Dir
             [(''improved-index.yml'', File ''registry''),
              (''x.md'', File ''X''),
              (''d1'', Dir [(''reviewer.md'', File ''1'')]),
              (''d2'', Dir [(''reviewer.md'', File ''2'')]),
              (''d3'', Dir [(''reviewer.md'', File ''3'')]),
              (''01-core-development'', Dir [(''foo.md'', File ''new'')])])],
           out = [Moved ''foo.md'' ''01-core-development/foo.md'']\<rparr>)
   \<and> fst (lint_main ex_env [''--fix'', ''--apply-moves'', ''improved-index.yml''] ex_world) = Completed
   \<and> readFileSync ''01-core-development/foo.md''
        (snd (lint_main ex_env [''--fix'', ''--apply-moves'', ''improved-index.yml''] ex_world))
       = Some ''new''"
  by code_simp

text \<open>C1 (amended): when the destination of a move exists as a file, the loop leaves it
  untouched only if it finds no source or the rename fails. If neither \<open>from\<close> nor its
  basename exists, the move is reported as skipped and the destination keeps its content;
  if one of them exists and the rename succeeds, the destination afterwards holds what the
  source held. There is no skipped counter.\<close>

theorem applyMove_existing_destination:
  assumes "readFileSync t w = Some x" and "mkdirSync (dirname t) w = Some w1"
  shows "applyMove \<lparr>mfrom = f, mto = t, mname = n\<rparr> w =
           (Completed,
            if existsSync f w1 \<or> existsSync (basename f) w1
            then (let s = (if existsSync f w1 then f else basename f)
                  in case renameSync s t w1 of
                       Some w2 \<Rightarrow> emit [Moved s t] w2
                     | None \<Rightarrow> emit [MoveFailed f t] w1)
            else emit [SkipNotFound f] w1)
         \<and> readFileSync t (snd (applyMove \<lparr>mfrom = f, mto = t, mname = n\<rparr> w)) =
           (if existsSync f w1 \<or> existsSync (basename f) w1
            then (let s = (if existsSync f w1 then f else basename f)
                  in case renameSync s t w1 of
                       Some w2 \<Rightarrow> readFileSync s w1
                     | None \<Rightarrow> Some x)
            else Some x)"
proof -
  have k: "readFileSync t w1 = Some x" by (rule mkdirSync_keeps_file[OF assms])
  show ?thesis
    using assms(2) k
    by (auto simp: applyMove_def Let_def renameSync_target split: option.splits)
qed

text \<open>Witness for C1 (amended): on a case-sensitive tree the record declared at \<open>Foo.md\<close>
  has no source, and the destination \<open>01-core-development/foo.md\<close> keeps its content.\<close>

theorem applyMove_existing_destination_witness:
  "readFileSync ''01-core-development/foo.md'' ex_world = Some ''old''
   \<and> mkdirSync (dirname ''01-core-development/foo.md'') ex_world = Some ex_world
   \<and> \<not> existsSync ''Foo.md'' ex_world
   \<and> \<not> existsSync (basename ''Foo.md'') ex_world
   \<and> applyMove \<lparr>mfrom = ''Foo.md'', mto = ''01-core-development/foo.md'', mname = ''x''\<rparr> ex_world
       = (Completed, emit [SkipNotFound ''Foo.md''] ex_world)
   \<and> readFileSync ''01-core-development/foo.md''
        (snd (applyMove \<lparr>mfrom = ''Foo.md'', mto = ''01-core-development/foo.md'', mname = ''x''\<rparr>
               ex_world)) = Some ''old''"
proof -
  have h1: "readFileSync ''01-core-development/foo.md'' ex_world = Some ''old''" by code_simp
  have h2: "mkdirSync (dirname ''01-core-development/foo.md'') ex_world = Some ex_world"
    by code_simp
  have h3: "\<not> existsSync ''Foo.md'' ex_world" by code_simp
  have h4: "\<not> existsSync (basename ''Foo.md'') ex_world" by code_simp
  note c = applyMove_existing_destination[OF h1 h2, of "''Foo.md''" "''x''"]
  have c1: "applyMove \<lparr>mfrom = ''Foo.md'', mto = ''01-core-development/foo.md'', mname = ''x''\<rparr>
              ex_world = (Completed, emit [SkipNotFound ''Foo.md''] ex_world)"
    using c[THEN conjunct1] h3 h4 by (simp only: simp_thms if_False)
  have c2: "readFileSync ''01-core-development/foo.md''
        (snd (applyMove \<lparr>mfrom = ''Foo.md'', mto = ''01-core-development/foo.md'', mname = ''x''\<rparr>
               ex_world)) = Some ''old''"
    using c[THEN conjunct2] h3 h4 by (simp only: simp_thms if_False)
  show ?thesis
    by (intro conjI) (rule h1 h2 h3 h4 c1 c2)+
qed

text \<open>C8: the move loop creates the destination directory of a move before it looks for
  the source, so the directory exists afterwards even when neither the source nor its
  basename is found and the move is skipped.\<close>

theorem applyMove_creates_destination_directory:
  assumes "mkdirSync (dirname t) w = Some w1"
    and "\<not> existsSync f w1" and "\<not> existsSync (basename f) w1"
  shows "applyMove \<lparr>mfrom = f, mto = t, mname = n\<rparr> w = (Completed, emit [SkipNotFound f] w1)
         \<and> isDirectory (dirname t) (snd (applyMove \<lparr>mfrom = f, mto = t, mname = n\<rparr> w))"
  using applyMove_not_found[OF assms] mkdirSync_isDirectory[OF assms(1)]
  by simp

text \<open>Witness for C8: \<open>new-dir\<close> does not exist, no \<open>zz.md\<close> exists anywhere, and after the
  skipped move \<open>new-dir\<close> is a directory. In the whole \<open>--fix --apply-moves\<close> run on a tree
  that holds the registry file only, both planned moves are skipped and the directory
  \<open>01-core-development\<close> is there afterwards.\<close>

theorem applyMove_creates_destination_directory_witness:
  "\<not> isDirectory ''new-dir'' ex_world
   \<and> mkdirSync (dirname ''new-dir/zz.md'') ex_world = Some ex_world_new_dir
   \<and> \<not> existsSync ''zz.md'' ex_world_new_dir
   \<and> \<not> existsSync (basename ''zz.md'') ex_world_new_dir
   \<and> applyMove \<lparr>mfrom = ''zz.md'', mto = ''new-dir/zz.md'', mname = ''z''\<rparr> ex_world
       = (Completed, emit [SkipNotFound ''zz.md''] ex_world_new_dir)
   \<and> isDirectory (dirname ''new-dir/zz.md'')
        (snd (applyMove \<lparr>mfrom = ''zz.md'', mto = ''new-dir/zz.md'', mname = ''z''\<rparr> ex_world))
   \<and> \<not> isDirectory ''01-core-development'' ex_world_bare
   \<and> lint_main ex_env [''--fix'', ''--apply-moves'', ''improved-index.yml''] ex_world_bare
       = (Completed,
          \<lparr>cwd = ''/repo'',
           root = Dir [(''repo'', Dir
             [(''improved-index.yml'', File ''fixed''),
              (''improved-index.yml.bak'', File ''registry''),
              (''01-core-development'', Dir [])])],
           out =
             [ReportHeader, ReportTotals 2 2 0 0, IssuesHeader,
              Issue (UnknownCategory ''engineering'' ''01-core-development'' ''x''),
              PathFixesHeader,
              PathFix ''foo.md'' ''01-core-development/foo.md'',
              PathFix ''My File.md'' ''01-core-development/my-file.md'',
              WroteFixes ''improved-index.yml'' ''improved-index.yml.bak'',
              SkipNotFound ''foo.md'', SkipNotFound ''My File.md'', AppliedMoves]\<rparr>)"
proof -
  have h0: "\<not> isDirectory ''new-dir'' ex_world" by code_simp
  have h1: "mkdirSync (dirname ''new-dir/zz.md'') ex_world = Some ex_world_new_dir" by code_simp
  have h2: "\<not> existsSync ''zz.md'' ex_world_new_dir" by code_simp
  have h3: "\<not> existsSync (basename ''zz.md'') ex_world_new_dir" by code_simp
  note c = applyMove_creates_destination_directory[OF h1 h2 h3, of "''z''"]
  have r0: "\<not> isDirectory ''01-core-development'' ex_world_bare" by code_simp
  have r1: "lint_main ex_env [''--fix'', ''--apply-moves'', ''improved-index.yml''] ex_world_bare
       = (Completed,
          \<lparr>cwd = ''/repo'',
           root = Dir [(''repo'', Dir
             [(''improved-index.yml'', File ''fixed''),
              (''improved-index.yml.bak'', File ''registry''),
              (''01-core-development'', Dir [])])],
           out =
             [ReportHeader, ReportTotals 2 2 0 0, IssuesHeader,
              Issue (UnknownCategory ''engineering'' ''01-core-development'' ''x''),
              PathFixesHeader,
              PathFix ''foo.md'' ''01-core-development/foo.md'',
              PathFix ''My File.md'' ''01-core-development/my-file.md'',
              WroteFixes ''improved-index.yml'' ''improved-index.yml.bak'',
              SkipNotFound ''foo.md'', SkipNotFound ''My File.md'', AppliedMoves]\<rparr>)"
    by code_simp
  show ?thesis
    by (intro conjI) (rule h0 h1 h2 h3 c[THEN conjunct1] c[THEN conjunct2] r0 r1)+
qed

section \<open>The lint run\<close>

text \<open>C7: without \<open>--fix\<close> the run writes nothing: the file tree, with the registry
  document and any backup file in it, is the one it started from; the run only prints.\<close>

theorem lint_without_fix_writes_nothing:
  assumes "''--fix'' \<notin> set args"
  shows "root (snd (lint_main e args w)) = root w
         \<and> cwd (snd (lint_main e args w)) = cwd w
         \<and> (\<exists>es. snd (lint_main e args w) = emit es w)"
proof -
  have e: "w = emit [] w" by (simp add: emit_def)
  have x: "\<exists>es. snd (lint_main e args w) = emit es w"
    using assms e
    by (auto simp: lint_main_def Let_def split: list.splits option.splits)
  then show ?thesis by (auto simp: emit_def)
qed

text \<open>Witness for C7: the report-only run on the example registry.\<close>

theorem lint_without_fix_writes_nothing_witness:
  "''--fix'' \<notin> set [''improved-index.yml'']
   \<and> fst (lint_main ex_env [''improved-index.yml''] ex_world) = Completed
   \<and> root (snd (lint_main ex_env [''improved-index.yml''] ex_world)) = root ex_world
   \<and> cwd (snd (lint_main ex_env [''improved-index.yml''] ex_world)) = cwd ex_world"
proof -
  have h: "''--fix'' \<notin> set [''improved-index.yml'']" by simp
  have c: "fst (lint_main ex_env [''improved-index.yml''] ex_world) = Completed" by code_simp
  note t = lint_without_fix_writes_nothing[OF h, of ex_env ex_world]
  show ?thesis
    by (intro conjI) (rule h c t[THEN conjunct1] t[THEN conjunct2, THEN conjunct1])+
qed

text \<open>C10: a parsed document whose \<open>agents\<close> field is absent or not an array is processed
  as an empty record list: every count of the summary is 0, the report is the header and
  the totals line, and the run goes on as for any document. Without \<open>--fix\<close> it ends
  there, completed; with \<open>--fix\<close> it writes the backup and the document (with an empty
  \<open>agents\<close> array), which needs the \<open>yaml\<close> package and the two writes to succeed.\<close>

theorem lint_agents_not_an_array:
  assumes "filter (\<lambda>a. \<not> prefix ''--'' a) args = ymlPath # rest" and "ymlPath \<noteq> []"
    and "readFileSync ymlPath w = Some raw" and "load e raw = Some data"
    and "agents data = NoAgents \<or> agents data = NotArray b"
  shows "agentList data = []
     \<and> summarize (agentList data) (processAgents (categories data) (agentList data))
         = \<lparr>s_total = 0, s_kept = 0, s_removed = 0, s_duplicates_removed = 0,
            s_problems = 0, s_moves = 0\<rparr>
     \<and> lint_main e args w =
         (if ''--fix'' \<in> set args
          then (case writeFileSync (ymlPath @ ''.bak'') raw
                       (emit [ReportHeader, ReportTotals 0 0 0 0] w) of
                  None \<Rightarrow> (Uncaught, emit [ReportHeader, ReportTotals 0 0 0 0] w)
                | Some w1 \<Rightarrow>
                   (case yaml e of
                      None \<Rightarrow> (Exited 1, emit [NeedYaml] w1)
                    | Some y \<Rightarrow>
                       (case writeFileSync ymlPath
                               (yaml_stringify y (data\<lparr>agents := AgentArray []\<rparr>)) w1 of
                          None \<Rightarrow> (Uncaught, w1)
                        | Some w2 \<Rightarrow>
                           (Completed, emit [WroteFixes ymlPath (ymlPath @ ''.bak'')] w2))))
          else (Completed, emit [ReportHeader, ReportTotals 0 0 0 0] w))"
proof -
  have l: "agentList data = []" using assms(5) by (auto simp: agentList_def)
  have a: "args \<noteq> []" using assms(1) by auto
  show ?thesis
    using assms(1-4) a
    by (simp add: l lint_main_def processAgents_def init_state_def summarize_def
        printReport_def writeAndApply_def Let_def split: option.splits)
qed

text \<open>Witness for C10: a JSON registry without an \<open>agents\<close> field, linted without and
  with \<open>--fix\<close>; both runs complete, and the report is the header and four zeros.\<close>

theorem lint_agents_not_an_array_witness:
  "filter (\<lambda>a. \<not> prefix ''--'' a) [''improved-index.yml''] = ''improved-index.yml'' # []
   \<and> ''improved-index.yml'' \<noteq> []
   \<and> readFileSync ''improved-index.yml'' ex_world = Some ''registry''
   \<and> load ex_env_json ''registry'' = Some \<lparr>categories = Map.empty, agents = NoAgents\<rparr>
   \<and> agents \<lparr>categories = Map.empty, agents = NoAgents\<rparr> = NoAgents
   \<and> lint_main ex_env_json [''improved-index.yml''] ex_world
       = (Completed, emit [ReportHeader, ReportTotals 0 0 0 0] ex_world)
   \<and> fst (lint_main ex_env_json [''--fix'', ''improved-index.yml''] ex_world) = Completed
   \<and> take 2 (out (snd (lint_main ex_env_json [''--fix'', ''improved-index.yml''] ex_world)))
       = [ReportHeader, ReportTotals 0 0 0 0]"
proof -
  let ?d = "\<lparr>categories = Map.empty, agents = NoAgents\<rparr>"
  have h1: "filter (\<lambda>a. \<not> prefix ''--'' a) [''improved-index.yml''] = ''improved-index.yml'' # []"
    by simp
  have h2: "''improved-index.yml'' \<noteq> []" by simp
  have h3: "readFileSync ''improved-index.yml'' ex_world = Some ''registry''" by code_simp
  have h4: "load ex_env_json ''registry'' = Some ?d"
    by (simp add: load_def ex_env_json_def)
  have h5: "agents ?d = NoAgents" by simp
  have h5': "agents ?d = NoAgents \<or> agents ?d = NotArray True" by simp
  have n: "''--fix'' \<notin> set [''improved-index.yml'']" by simp
  note t = lint_agents_not_an_array[OF h1 h2 h3 h4 h5']
  have t3: "lint_main ex_env_json [''improved-index.yml''] ex_world
       = (Completed, emit [ReportHeader, ReportTotals 0 0 0 0] ex_world)"
    using t[THEN conjunct2, THEN conjunct2] n by (simp only: if_False)
  have f1: "fst (lint_main ex_env_json [''--fix'', ''improved-index.yml''] ex_world) = Completed"
    by code_simp
  have f2: "take 2 (out (snd (lint_main ex_env_json [''--fix'', ''improved-index.yml''] ex_world)))
       = [ReportHeader, ReportTotals 0 0 0 0]"
    by code_simp
  show ?thesis
    by (intro conjI) (rule h1 h2 h3 h4 h5 t3 f1 f2)+
qed

section \<open>The rescue pass\<close>



text \<open>C2 fails as stated. The tool has three counters, \<open>moved\<close>, \<open>missing\<close> and \<open>skipped\<close>:
  for the target \<open>c/reviewer.md\<close> with three candidates (Scenario D of the specification)
  the candidates are printed and no counter changes. And one candidate does not mean one move: the index is built once, so
  for \<open>b/x.md\<close> the only candidate \<open>/repo/x.md\<close> has already been moved to \<open>a/x.md\<close>; the
  rename fails, a warning is printed and \<open>moved\<close> stays at 1.\<close>

theorem rescue_counts_counterexample:
  "walkRoot ex_world = Some [''/repo/improved-index.yml'', ''/repo/foo.md'', ''/repo/x.md'',
       ''/repo/d1/reviewer.md'', ''/repo/d2/reviewer.md'', ''/repo/d3/reviewer.md'',
       ''/repo/01-core-development/foo.md'']
   \<and> ex_index ''reviewer.md''
       = Some [''/repo/d1/reviewer.md'', ''/repo/d2/reviewer.md'', ''/repo/d3/reviewer.md'']
   \<and> \<not> existsSync ''c/reviewer.md'' ex_world
   \<and> rescueStep ex_index ''c/reviewer.md'' (counts0, ex_world)
       = (Completed, counts0,
          emit [Ambiguous ''reviewer.md'' 3, Candidate ''/repo/d1/reviewer.md'',
                Candidate ''/repo/d2/reviewer.md'', Candidate ''/repo/d3/reviewer.md''] ex_world)
   \<and> ex_index ''x.md'' = Some [''/repo/x.md'']
   \<and> fst (rescueStep ex_index ''a/x.md'' (counts0, ex_world)) = Completed
   \<and> \<not> existsSync ''b/x.md'' (snd (snd (rescueStep ex_index ''a/x.md'' (counts0, ex_world))))
   \<and> fst (snd (rescueLoop ex_index [''a/x.md'', ''b/x.md''] (counts0, ex_world)))
       = \<lparr>moved = 1, missing = 0, skipped = 0\<rparr>
   \<and> out (snd (snd (rescueLoop ex_index [''a/x.md'', ''b/x.md''] (counts0, ex_world))))
       = [Moved ''/repo/x.md'' ''a/x.md'', MoveFailed ''/repo/x.md'' ''b/x.md'']
   \<and> out (snd (rescue_main ex_env [] ex_world))
       = [Moved ''/repo/x.md'' ''a/x.md'', MoveFailed ''/repo/x.md'' ''b/x.md'',
          Ambiguous ''reviewer.md'' 3, Candidate ''/repo/d1/reviewer.md'',
          Candidate ''/repo/d2/reviewer.md'', Candidate ''/repo/d3/reviewer.md'',
          MissingSource ''c/nothing.md'',
          RescueDone 1 0 1]"
  by code_simp

text \<open>C2 (amended): for a record whose target does not exist, the step goes by the number
  of candidates the index holds for the target's lower-cased basename. None: \<open>missing\<close>
  increments and the tree is unchanged. Exactly one: the destination directory is created
  and the rename is tried; if it succeeds \<open>moved\<close> increments and the target holds what the
  candidate held, and if it fails a warning is printed and no counter changes. Two or more:
  the count and every candidate path are printed, the tree is unchanged and no counter
  changes.\<close>

theorem rescueStep_by_candidate_count:
  assumes "\<not> existsSync tgt w"
    and "candidates = (case index (toLowerCase (basename tgt)) of None \<Rightarrow> [] | Some ps \<Rightarrow> ps)"
  shows "rescueStep index tgt (c, w) =
     (case candidates of
        [] \<Rightarrow> (Completed, c\<lparr>missing := missing c + 1\<rparr>, emit [MissingSource tgt] w)
      | [src] \<Rightarrow>
          (case mkdirSync (dirname tgt) w of
             None \<Rightarrow> (Uncaught, c, w)
           | Some w1 \<Rightarrow>
               (case renameSync src tgt w1 of
                  Some w2 \<Rightarrow> (Completed, c\<lparr>moved := moved c + 1\<rparr>, emit [Moved src tgt] w2)
                | None \<Rightarrow> (Completed, c, emit [MoveFailed src tgt] w1)))
      | src # other # others \<Rightarrow>
          (Completed, c,
           emit (Ambiguous (toLowerCase (basename tgt)) (length candidates)
                 # map Candidate candidates) w))
    \<and> root (snd (snd (rescueStep index tgt (c, w)))) =
     (case candidates of
        [src] \<Rightarrow>
          (case mkdirSync (dirname tgt) w of
             None \<Rightarrow> root w
           | Some w1 \<Rightarrow> (case renameSync src tgt w1 of Some w2 \<Rightarrow> root w2 | None \<Rightarrow> root w1))
      | _ \<Rightarrow> root w)
    \<and> readFileSync tgt (snd (snd (rescueStep index tgt (c, w)))) =
     (case candidates of
        [src] \<Rightarrow>
          (case mkdirSync (dirname tgt) w of
             None \<Rightarrow> readFileSync tgt w
           | Some w1 \<Rightarrow>
               (case renameSync src tgt w1 of
                  Some w2 \<Rightarrow> readFileSync src w1
                | None \<Rightarrow> readFileSync tgt w1))
      | _ \<Rightarrow> readFileSync tgt w)"
proof -
  have 1: "rescueStep index tgt (c, w) =
     (case candidates of
        [] \<Rightarrow> (Completed, c\<lparr>missing := missing c + 1\<rparr>, emit [MissingSource tgt] w)
      | [src] \<Rightarrow>
          (case mkdirSync (dirname tgt) w of
             None \<Rightarrow> (Uncaught, c, w)
           | Some w1 \<Rightarrow>
               (case renameSync src tgt w1 of
                  Some w2 \<Rightarrow> (Completed, c\<lparr>moved := moved c + 1\<rparr>, emit [Moved src tgt] w2)
                | None \<Rightarrow> (Completed, c, emit [MoveFailed src tgt] w1)))
      | src # other # others \<Rightarrow>
          (Completed, c,
           emit (Ambiguous (toLowerCase (basename tgt)) (length candidates)
                 # map Candidate candidates) w))"
    using assms
    by (simp add: rescueStep_def Let_def split: list.splits option.splits)
  show ?thesis
    unfolding 1
    by (auto simp: renameSync_target split: list.splits option.splits)
qed

text \<open>Witness for C2 (amended): the three cases on the example tree and its index.\<close>

theorem rescueStep_by_candidate_count_witness:
  "\<not> existsSync ''c/nothing.md'' ex_world
   \<and> [] = (case ex_index (toLowerCase (basename ''c/nothing.md'')) of None \<Rightarrow> [] | Some ps \<Rightarrow> ps)
   \<and> rescueStep ex_index ''c/nothing.md'' (counts0, ex_world)
       = (Completed, counts0\<lparr>missing := missing counts0 + 1\<rparr>,
          emit [MissingSource ''c/nothing.md''] ex_world)
   \<and> \<not> existsSync ''c/reviewer.md'' ex_world
   \<and> [''/repo/d1/reviewer.md'', ''/repo/d2/reviewer.md'', ''/repo/d3/reviewer.md'']
       = (case ex_index (toLowerCase (basename ''c/reviewer.md'')) of None \<Rightarrow> [] | Some ps \<Rightarrow> ps)
   \<and> root (snd (snd (rescueStep ex_index ''c/reviewer.md'' (counts0, ex_world)))) = root ex_world
   \<and> \<not> existsSync ''a/x.md'' ex_world
   \<and> [''/repo/x.md'']
       = (case ex_index (toLowerCase (basename ''a/x.md'')) of None \<Rightarrow> [] | Some ps \<Rightarrow> ps)
   \<and> fst (snd (rescueStep ex_index ''a/x.md'' (counts0, ex_world)))
       = \<lparr>moved = 1, missing = 0, skipped = 0\<rparr>
   \<and> readFileSync ''a/x.md'' (snd (snd (rescueStep ex_index ''a/x.md'' (counts0, ex_world))))
       = Some ''X''"
proof -
  have a1: "\<not> existsSync ''c/nothing.md'' ex_world" by code_simp
  have a2: "[] = (case ex_index (toLowerCase (basename ''c/nothing.md'')) of
                    None \<Rightarrow> [] | Some ps \<Rightarrow> ps)" by code_simp
  have a3: "rescueStep ex_index ''c/nothing.md'' (counts0, ex_world)
       = (Completed, counts0\<lparr>missing := missing counts0 + 1\<rparr>,
          emit [MissingSource ''c/nothing.md''] ex_world)"
    using rescueStep_by_candidate_count
            [where tgt = "''c/nothing.md''" and w = ex_world and candidates = "[]"
               and index = ex_index and c = counts0, OF a1 a2, THEN conjunct1] by simp
  have b1: "\<not> existsSync ''c/reviewer.md'' ex_world" by code_simp
  have b2: "[''/repo/d1/reviewer.md'', ''/repo/d2/reviewer.md'', ''/repo/d3/reviewer.md'']
       = (case ex_index (toLowerCase (basename ''c/reviewer.md'')) of
            None \<Rightarrow> [] | Some ps \<Rightarrow> ps)" by code_simp
  have b3: "root (snd (snd (rescueStep ex_index ''c/reviewer.md'' (counts0, ex_world))))
       = root ex_world"
    using rescueStep_by_candidate_count
            [where tgt = "''c/reviewer.md''" and w = ex_world
               and candidates = "[''/repo/d1/reviewer.md'', ''/repo/d2/reviewer.md'',
                                   ''/repo/d3/reviewer.md'']"
               and index = ex_index and c = counts0, OF b1 b2, THEN conjunct2, THEN conjunct1]
    by simp
  have c1: "\<not> existsSync ''a/x.md'' ex_world" by code_simp
  have c2: "[''/repo/x.md'']
       = (case ex_index (toLowerCase (basename ''a/x.md'')) of None \<Rightarrow> [] | Some ps \<Rightarrow> ps)"
    by code_simp
  have c3: "fst (snd (rescueStep ex_index ''a/x.md'' (counts0, ex_world)))
       = \<lparr>moved = 1, missing = 0, skipped = 0\<rparr>" by code_simp
  have c4: "readFileSync ''a/x.md'' (snd (snd (rescueStep ex_index ''a/x.md'' (counts0, ex_world))))
       = Some ''X''" by code_simp
  show ?thesis
    by (intro conjI) (rule a1 a2 a3 b1 b2 b3 c1 c2 c3 c4)+
qed


end
